theory Spec2Isabelle
  imports Main "HOL-Library.Word"
begin

unbundle bit_operations_syntax

section \<open>The hwopus service: data model\<close>

text \<open>
  The development follows \<^verbatim>\<open>src/core/hle/service/audio/hwopus.cpp\<close>.
  Fixed-width integers are words: \<^verbatim>\<open>u8\<close>, \<^verbatim>\<open>u32\<close>, \<^verbatim>\<open>u64\<close> are read with \<open>unat\<close>, the C
  \<^verbatim>\<open>int\<close> and \<^verbatim>\<open>opus_int32\<close> are 32-bit words read with \<open>sint\<close>, a sample
  (\<^verbatim>\<open>opus_int16\<close>) is a 16-bit word. Conversions between them keep the low bits, as the C++
  conversions do. Values of type \<^verbatim>\<open>std::size_t\<close> are natural numbers: the host is a 64-bit
  one, and every \<^verbatim>\<open>size_t\<close> expression of the file stays below \<open>2 ^ 64\<close> (a vector's byte
  size fits the address space, the other operands are 32-bit values times two or plus
  eight), so none of them wraps. The one conversion from a negative \<^verbatim>\<open>int\<close> to
  \<^verbatim>\<open>size_t\<close> has its wrap-around written out.
\<close>

type_synonym u8 = "8 word"
type_synonym u32 = "32 word"
type_synonym u64 = "64 word"
type_synonym opus_int16 = "16 word"
type_synonym c_int = "32 word"

text \<open>
  The codec (libopus, \<^verbatim>\<open>opus.h\<close>) is an external library. Its four entry points used by
  the file are parameters of the model; \<open>'st\<close> is the content of the memory block behind
  an \<^verbatim>\<open>OpusDecoder*\<close>.
  \<^item> \<open>opus_packet_get_nb_samples frame len Fs\<close>: \<open>frame\<close> is the memory readable from the
    pointer it is given, \<open>len\<close> the length argument.
  \<^item> \<open>opus_decode st frame len frame_size decode_fec\<close> returns its \<^verbatim>\<open>int\<close> result, the
    decoder memory it leaves behind, and the samples it stored from \<^verbatim>\<open>pcm[0]\<close> on.
  \<^item> \<open>opus_decoder_init Fs channels\<close> returns its error code and the initialised memory.
\<close>

record 'st codec =
  opus_packet_get_nb_samples :: "u8 list \<Rightarrow> c_int \<Rightarrow> c_int \<Rightarrow> c_int"
  opus_decode :: "'st \<Rightarrow> u8 list \<Rightarrow> c_int \<Rightarrow> c_int \<Rightarrow> c_int \<Rightarrow> c_int \<times> 'st \<times> opus_int16 list"
  opus_decoder_get_size :: "c_int \<Rightarrow> c_int"
  opus_decoder_init :: "c_int \<Rightarrow> c_int \<Rightarrow> c_int \<times> 'st"

text \<open>The calls made to the codec during a decode request, in order, with their
  length, sample-rate and frame-size arguments.\<close>

datatype codec_call =
  Probe "u8 list" c_int c_int
  | Decode "u8 list" c_int c_int

fun is_Decode :: "codec_call \<Rightarrow> bool" where
  "is_Decode (Decode frame len frame_size) = True"
| "is_Decode (Probe frame len Fs) = False"

text \<open>The members of \<^verbatim>\<open>IHardwareOpusDecoderManager\<close> (lines 146-148).\<close>

record 'st session =
  decoder :: 'st
  sample_rate :: u32
  channel_count :: u32

text \<open>
  \<open>ContractError\<close> is a failed \<^verbatim>\<open>ASSERT_MSG\<close>. The next three name the three
  \<^verbatim>\<open>LOG_ERROR\<close> lines after which \<^verbatim>\<open>Decoder_DecodeInterleaved\<close> returns \<^verbatim>\<open>false\<close>
  (lines 98, 105 for framing, 114 for capacity, 124 for the codec); \<open>DecoderInitFailed\<close> is
  the one of line 193. \<open>Fault\<close> is an integer division by zero, which C++ leaves undefined.
\<close>

datatype error =
  ContractError | FramingError | CapacityError | CodecError | DecoderInitFailed | Fault

subsection \<open>The clock\<close>

text \<open>
  \<^verbatim>\<open>std::chrono::high_resolution_clock::now()\<close> reads a clock of the host. A reading is a
  signed count of nanoseconds, and the clock need not be steady: a later reading can be
  the smaller one. \<open>clock\<close> gives what the clock shows at four moments of a call of
  \<^verbatim>\<open>Decoder_DecodeInterleaved\<close>; the function itself reads it at the first and the last.
  Readings are integers: the difference of two readings of one call is far inside the
  64-bit range of the library's counter.
\<close>

datatype instant =
  Entered            \<comment> \<open>line 95, before the header check\<close>
  | DecodeCalled     \<comment> \<open>line 122, as \<^verbatim>\<open>opus_decode\<close> is entered\<close>
  | DecodeReturned   \<comment> \<open>line 122, as \<^verbatim>\<open>opus_decode\<close> returns\<close>
  | Finished         \<comment> \<open>line 130, after the result check\<close>

type_synonym clock_readings = "instant \<Rightarrow> int"

definition milliseconds :: "int \<Rightarrow> int" where
  \<comment> \<open>\<^verbatim>\<open>duration_cast<std::chrono::milliseconds>\<close> of a nanosecond count: the quotient
      rounded towards zero\<close>
  "milliseconds ns = (if 0 \<le> ns then ns div 1000000 else - ((- ns) div 1000000))"

subsection \<open>The packet header\<close>

text \<open>
  \<^verbatim>\<open>OpusHeader\<close> (lines 140-144) is eight bytes: \<^verbatim>\<open>u32_be sz\<close> and one padding word.
  \<^verbatim>\<open>memcpy\<close> fills it from the first eight input bytes; reading \<^verbatim>\<open>hdr.sz\<close> as a
  \<^verbatim>\<open>u32\<close> takes the first four bytes most significant first. The type \<^verbatim>\<open>u32_be\<close> is
  declared in \<^verbatim>\<open>common/swap.h\<close>.
\<close>

definition sizeof_OpusHeader :: nat where
  "sizeof_OpusHeader = 8"

definition hdr_sz :: "u8 list \<Rightarrow> u32" where
  "hdr_sz input =
     push_bit 24 (ucast (input ! 0)) OR push_bit 16 (ucast (input ! 1))
       OR push_bit 8 (ucast (input ! 2)) OR ucast (input ! 3)"

section \<open>The decoder session\<close>

text \<open>
  What a call of \<^verbatim>\<open>Decoder_DecodeInterleaved\<close> leaves behind: the returned \<^verbatim>\<open>bool\<close>
  (\<open>failure = None\<close> is \<^verbatim>\<open>true\<close>), the by-reference results (both callers initialise them
  to 0, lines 51-52 and 71-73), the output vector, the session object, and the calls made
  to the codec.
\<close>

record 'st outcome =
  failure :: "error option"
  consumed :: u32
  sample_count :: u32
  performance :: u64
  samples :: "opus_int16 list"
  self :: "'st session"
  calls :: "codec_call list"

definition failed :: "error \<Rightarrow> opus_int16 list \<Rightarrow> 'st session \<Rightarrow> codec_call list \<Rightarrow> 'st outcome" where
  "failed e out s cs =
     \<lparr>failure = Some e, consumed = 0, sample_count = 0, performance = 0,
      samples = out, self = s, calls = cs\<rparr>"

text \<open>
  \<open>stored out pcm\<close> is the vector \<open>out\<close> after the codec stored \<open>pcm\<close> from its first
  element on. A store through \<^verbatim>\<open>output.data()\<close> cannot change the vector's size; stores
  past its end are outside the model.
\<close>

definition stored :: "opus_int16 list \<Rightarrow> opus_int16 list \<Rightarrow> opus_int16 list" where
  "stored out pcm = take (length out) pcm @ drop (length pcm) out"

text \<open>
  \<^verbatim>\<open>Decoder_DecodeInterleaved\<close> (lines 91-138). \<open>out\<close> is the output vector the caller
  passes by reference, and \<open>timed\<close> says whether a \<^verbatim>\<open>performance_time\<close> reference was
  passed. The difference of the two clock readings is signed; its count of milliseconds
  is stored in a \<^verbatim>\<open>u64\<close>, which keeps the low 64 bits of a negative count. The division of line 120 comes after the
  capacity check; a session with no channels would divide by zero there.
\<close>

definition Decoder_DecodeInterleaved ::
  "'st codec \<Rightarrow> clock_readings \<Rightarrow> 'st session \<Rightarrow> u8 list \<Rightarrow> opus_int16 list \<Rightarrow> bool
     \<Rightarrow> 'st outcome"
where
  "Decoder_DecodeInterleaved c clock s input out timed =
    (let start_time = clock Entered;
         raw_output_sz = length out * 2
     in
     if sizeof_OpusHeader > length input then failed FramingError out s []
     else if sizeof_OpusHeader + unat (hdr_sz input) > length input
       then failed FramingError out s []
     else
       let frame = drop sizeof_OpusHeader input;
           len = (of_nat (length input - sizeof_OpusHeader) :: c_int);
           decoded_sample_count = opus_packet_get_nb_samples c frame len (sample_rate s);
           probed = [Probe frame len (sample_rate s)]
       in
       if unat (decoded_sample_count * channel_count s) * 2 > raw_output_sz
         then failed CapacityError out s probed
       else if channel_count s = 0 then failed Fault out s probed
       else
         let frame_size = (of_nat (raw_output_sz div 2 div unat (channel_count s)) :: c_int);
             (out_sample_count, st, pcm) =
                opus_decode c (decoder s) frame (hdr_sz input) frame_size 0;
             s' = s\<lparr>decoder := st\<rparr>;
             out' = stored out pcm;
             done = probed @ [Decode frame (hdr_sz input) frame_size]
         in
         if sint out_sample_count < 0 then failed CodecError out' s' done
         else
           let end_time = clock Finished - start_time
           in
           \<lparr>failure = None,
            consumed = of_nat (sizeof_OpusHeader + unat (hdr_sz input)),
            sample_count = out_sample_count,
            performance = (if timed then of_int (milliseconds end_time) else 0),
            samples = out', self = s', calls = done\<rparr>)"

subsection \<open>The two request handlers\<close>

text \<open>
  Modelled from the spec: the request object of the transport
  (\<^verbatim>\<open>Kernel::HLERequestContext\<close> and \<^verbatim>\<open>IPC::ResponseBuilder\<close>, whose sources are not part
  of the file). It offers a read-only input byte buffer and a declared maximum output
  byte-buffer size with a write-sink; the reply is a result code, the values pushed after
  it, and what was handed to \<^verbatim>\<open>WriteBuffer\<close>, if anything. \<^verbatim>\<open>RESULT_SUCCESS\<close> is 0 and
  \<^verbatim>\<open>ResultCode(-1)\<close> is the single generic failure status.
\<close>

record request =
  ReadBuffer :: "u8 list"
  GetWriteBufferSize :: nat

datatype pushed = Push_u32 u32 | Push_u64 u64

record response =
  result :: u32
  words :: "pushed list"
  WriteBuffer :: "opus_int16 list option"

definition RESULT_SUCCESS :: u32 where
  "RESULT_SUCCESS = 0"

definition generic_failure :: response where
  "generic_failure = \<lparr>result = 0xFFFFFFFF, words = [], WriteBuffer = None\<rparr>"

text \<open>A handled request: the session object afterwards, the reply, and the calls
  made to the codec. A handler that divides by zero gives no reply.\<close>

record 'st handled =
  this :: "'st session"
  reply :: response
  codec_calls :: "codec_call list"

text \<open>The call both handlers make (lines 53-54 and 74-76): the output vector has
  one zero-initialised element for every two bytes of the write buffer.\<close>

abbreviation decode_call ::
  "'st codec \<Rightarrow> clock_readings \<Rightarrow> 'st session \<Rightarrow> request \<Rightarrow> bool \<Rightarrow> 'st outcome"
where
  "decode_call c clock s ctx timed \<equiv>
     Decoder_DecodeInterleaved c clock s (ReadBuffer ctx)
       (replicate (GetWriteBufferSize ctx div 2) 0) timed"

definition DecodeInterleaved ::
  "'st codec \<Rightarrow> clock_readings \<Rightarrow> 'st session \<Rightarrow> request \<Rightarrow> error + 'st handled"
where
  "DecodeInterleaved c clock s ctx =
    (let r = decode_call c clock s ctx False in
     if failure r = Some Fault then Inl Fault
     else if failure r \<noteq> None
       then Inr \<lparr>this = self r, reply = generic_failure, codec_calls = calls r\<rparr>
     else Inr \<lparr>this = self r,
               reply = \<lparr>result = RESULT_SUCCESS,
                        words = [Push_u32 (consumed r), Push_u32 (sample_count r)],
                        WriteBuffer = Some (samples r)\<rparr>,
               codec_calls = calls r\<rparr>)"

definition DecodeInterleavedWithPerformance ::
  "'st codec \<Rightarrow> clock_readings \<Rightarrow> 'st session \<Rightarrow> request \<Rightarrow> error + 'st handled"
where
  "DecodeInterleavedWithPerformance c clock s ctx =
    (let r = decode_call c clock s ctx True in
     if failure r = Some Fault then Inl Fault
     else if failure r \<noteq> None
       then Inr \<lparr>this = self r, reply = generic_failure, codec_calls = calls r\<rparr>
     else Inr \<lparr>this = self r,
               reply = \<lparr>result = RESULT_SUCCESS,
                        words = [Push_u32 (consumed r), Push_u32 (sample_count r),
                                 Push_u64 (performance r)],
                        WriteBuffer = Some (samples r)\<rparr>,
               codec_calls = calls r\<rparr>)"

section \<open>The decoder factory\<close>

text \<open>
  Modelled from the spec: the macro \<^verbatim>\<open>ASSERT_MSG\<close> (\<^verbatim>\<open>common/assert.h\<close> is not part of the
  file). A violated precondition is a fatal contract error: the handler is abandoned and
  nothing after the assertion runs.
\<close>

definition ASSERT_MSG :: "bool \<Rightarrow> error + 'a \<Rightarrow> error + 'a" where
  "ASSERT_MSG cond rest = (if cond then rest else Inl ContractError)"

definition size_t_of_int :: "c_int \<Rightarrow> nat" where
  \<comment> \<open>the conversion of an \<^verbatim>\<open>int\<close> to the 64-bit \<^verbatim>\<open>std::size_t\<close>\<close>
  "size_t_of_int x = nat (sint x mod 2 ^ 64)"

definition valid_sample_rate :: "u32 \<Rightarrow> bool" where
  "valid_sample_rate rate \<longleftrightarrow>
     rate = 48000 \<or> rate = 24000 \<or> rate = 16000 \<or>
     rate = 12000 \<or> rate = 8000"

definition valid_channel_count :: "u32 \<Rightarrow> bool" where
  "valid_channel_count channels \<longleftrightarrow> channels = 1 \<or> channels = 2"

definition WorkerBufferSize :: "'st codec \<Rightarrow> u32 \<Rightarrow> error + nat" where
  "WorkerBufferSize c channels =
     ASSERT_MSG (valid_channel_count channels)
       (Inr (size_t_of_int (opus_decoder_get_size c channels)))"

definition GetWorkBufferSize :: "'st codec \<Rightarrow> u32 \<Rightarrow> u32 \<Rightarrow> error + response" where
  "GetWorkBufferSize c rate channels =
     ASSERT_MSG (valid_sample_rate rate)
      (ASSERT_MSG (valid_channel_count channels)
        (case WorkerBufferSize c channels of
           Inl e \<Rightarrow> Inl e
         | Inr sz \<Rightarrow>
             Inr \<lparr>result = RESULT_SUCCESS, words = [Push_u32 (of_nat sz)],
                  WriteBuffer = None\<rparr>))"

text \<open>\<^verbatim>\<open>OpenOpusDecoder\<close> replies with a result code and, on success, the new session
  (\<^verbatim>\<open>PushIpcInterface\<close>, line 202).\<close>

definition OpenOpusDecoder ::
  "'st codec \<Rightarrow> u32 \<Rightarrow> u32 \<Rightarrow> u32 \<Rightarrow> error + (response \<times> 'st session option)"
where
  "OpenOpusDecoder c rate channels buffer_sz =
     ASSERT_MSG (valid_sample_rate rate)
      (ASSERT_MSG (valid_channel_count channels)
        (case WorkerBufferSize c channels of
           Inl e \<Rightarrow> Inl e
         | Inr worker_sz \<Rightarrow>
             ASSERT_MSG (unat buffer_sz \<ge> worker_sz)
               (let (err, st) = opus_decoder_init c rate channels in
                if err \<noteq> 0 then Inr (generic_failure, None)
                else Inr (\<lparr>result = RESULT_SUCCESS, words = [], WriteBuffer = None\<rparr>,
                          Some \<lparr>decoder = st, sample_rate = rate,
                                channel_count = channels\<rparr>))))"

section \<open>A codec stub\<close>

text \<open>
  An instrumented stand-in for the codec, for running the model on concrete packets: the
  probe answers \<open>estimate\<close>, a decode answers \<open>produced\<close>, stores \<open>pcm\<close> and counts itself
  in the decoder memory, which is a number here.
\<close>

definition stub :: "c_int \<Rightarrow> c_int \<Rightarrow> opus_int16 list \<Rightarrow> nat codec" where
  "stub estimate produced pcm =
     \<lparr>opus_packet_get_nb_samples = (\<lambda>frame len Fs. estimate),
      opus_decode = (\<lambda>st frame len frame_size decode_fec. (produced, Suc st, pcm)),
      opus_decoder_get_size = (\<lambda>channels. if channels = 1 then 18228 else 26580),
      opus_decoder_init = (\<lambda>Fs channels. (0, 0))\<rparr>"

definition mono_session :: "nat session" where
  "mono_session = \<lparr>decoder = 0, sample_rate = 48000, channel_count = 1\<rparr>"

definition stereo_session :: "nat session" where
  "stereo_session = \<lparr>decoder = 0, sample_rate = 48000, channel_count = 2\<rparr>"

definition still_clock :: clock_readings where
  "still_clock = (\<lambda>instant. 0)"

definition slow_probe :: clock_readings where
  \<comment> \<open>five milliseconds pass before the decode call, none during it or after it\<close>
  "slow_probe = (\<lambda>instant. if instant = Entered then 0 else 5000000)"

definition set_back :: clock_readings where
  \<comment> \<open>the clock is set back by nine milliseconds after the first reading\<close>
  "set_back = (\<lambda>instant. if instant = Entered then 9000000 else 0)"

section \<open>The paths through a decode call\<close>

text \<open>
  One equation for each way out of \<^verbatim>\<open>Decoder_DecodeInterleaved\<close>, then what a
  successful and a failed call leave behind, and how a handler answers a failed call.
\<close>

lemma decode_short:
  "length input < 8 \<Longrightarrow>
   Decoder_DecodeInterleaved c clock s input out timed = failed FramingError out s []"
  by (simp add: Decoder_DecodeInterleaved_def sizeof_OpusHeader_def)

lemma decode_overrun:
  "8 \<le> length input \<Longrightarrow> length input < 8 + unat (hdr_sz input) \<Longrightarrow>
   Decoder_DecodeInterleaved c clock s input out timed = failed FramingError out s []"
  by (simp add: Decoder_DecodeInterleaved_def sizeof_OpusHeader_def)

lemma decode_probed:
  assumes "8 + unat (hdr_sz input) \<le> length input"
    and "length out * 2 <
         unat (opus_packet_get_nb_samples c (drop 8 input) (of_nat (length input - 8))
                 (sample_rate s) * channel_count s) * 2"
  shows "Decoder_DecodeInterleaved c clock s input out timed =
         failed CapacityError out s
           [Probe (drop 8 input) (of_nat (length input - 8)) (sample_rate s)]"
  using assms by (simp add: Decoder_DecodeInterleaved_def sizeof_OpusHeader_def Let_def)

lemma decode_invoked:
  assumes "8 + unat (hdr_sz input) \<le> length input"
    and "unat (opus_packet_get_nb_samples c (drop 8 input) (of_nat (length input - 8))
                 (sample_rate s) * channel_count s) * 2 \<le> length out * 2"
    and "channel_count s \<noteq> 0"
    and "opus_decode c (decoder s) (drop 8 input) (hdr_sz input)
           (of_nat (length out * 2 div 2 div unat (channel_count s))) 0 = (n, st, pcm)"
  shows "Decoder_DecodeInterleaved c clock s input out timed =
     (if sint n < 0
      then failed CodecError (stored out pcm) (s\<lparr>decoder := st\<rparr>)
             [Probe (drop 8 input) (of_nat (length input - 8)) (sample_rate s),
              Decode (drop 8 input) (hdr_sz input)
                (of_nat (length out * 2 div 2 div unat (channel_count s)))]
      else \<lparr>failure = None, consumed = 8 + hdr_sz input, sample_count = n,
            performance =
              (if timed
               then of_int (milliseconds (clock Finished - clock Entered))
               else 0),
            samples = stored out pcm, self = s\<lparr>decoder := st\<rparr>,
            calls = [Probe (drop 8 input) (of_nat (length input - 8)) (sample_rate s),
                     Decode (drop 8 input) (hdr_sz input)
                       (of_nat (length out * 2 div 2 div unat (channel_count s)))]\<rparr>)"
  using assms by (simp add: Decoder_DecodeInterleaved_def sizeof_OpusHeader_def Let_def)

lemma decode_calls_shape:
  assumes "8 + unat (hdr_sz input) \<le> length input"
  shows "calls (Decoder_DecodeInterleaved c clock s input out timed) =
           [Probe (drop 8 input) (of_nat (length input - 8)) (sample_rate s)]
       \<or> calls (Decoder_DecodeInterleaved c clock s input out timed) =
           [Probe (drop 8 input) (of_nat (length input - 8)) (sample_rate s),
            Decode (drop 8 input) (hdr_sz input)
              (of_nat (length out * 2 div 2 div unat (channel_count s)))]"
  using assms
  by (simp add: Decoder_DecodeInterleaved_def sizeof_OpusHeader_def Let_def failed_def
        split: prod.splits)

lemma decode_called_fits:
  assumes "list_ex is_Decode (calls (Decoder_DecodeInterleaved c clock s input out timed))"
  shows "8 + unat (hdr_sz input) \<le> length input"
    and "unat (opus_packet_get_nb_samples c (drop 8 input) (of_nat (length input - 8))
                 (sample_rate s) * channel_count s) * 2 \<le> length out * 2"
  using assms
  by (auto simp: Decoder_DecodeInterleaved_def sizeof_OpusHeader_def Let_def failed_def
        split: if_splits prod.splits)

lemma decode_success:
  assumes "failure (Decoder_DecodeInterleaved c clock s input out timed) = None"
  shows "8 + unat (hdr_sz input) \<le> length input"
    and "consumed (Decoder_DecodeInterleaved c clock s input out timed) = 8 + hdr_sz input"
    and "length (samples (Decoder_DecodeInterleaved c clock s input out timed)) = length out"
    and "performance (Decoder_DecodeInterleaved c clock s input out timed) =
           (if timed then of_int (milliseconds (clock Finished - clock Entered)) else 0)"
  using assms
  by (auto simp: Decoder_DecodeInterleaved_def sizeof_OpusHeader_def Let_def failed_def
        stored_def split: if_splits prod.splits)

lemma decode_success_samples:
  assumes "failure (Decoder_DecodeInterleaved c clock s input out timed) = None"
  shows "samples (Decoder_DecodeInterleaved c clock s input out timed) =
           stored out (snd (snd (opus_decode c (decoder s) (drop 8 input) (hdr_sz input)
             (of_nat (length out * 2 div 2 div unat (channel_count s))) 0)))"
    and "sample_count (Decoder_DecodeInterleaved c clock s input out timed) =
           fst (opus_decode c (decoder s) (drop 8 input) (hdr_sz input)
             (of_nat (length out * 2 div 2 div unat (channel_count s))) 0)"
  using assms
  by (auto simp: Decoder_DecodeInterleaved_def sizeof_OpusHeader_def Let_def failed_def
        split: if_splits prod.splits)

lemma decode_failure_cases:
  assumes "failure (Decoder_DecodeInterleaved c clock s input out timed) = Some e"
    and "channel_count s \<noteq> 0"
  shows "e = FramingError \<or> e = CapacityError \<or> e = CodecError"
    and "sample_rate (self (Decoder_DecodeInterleaved c clock s input out timed))
           = sample_rate s"
    and "channel_count (self (Decoder_DecodeInterleaved c clock s input out timed))
           = channel_count s"
    and "e \<noteq> CodecError \<Longrightarrow>
           self (Decoder_DecodeInterleaved c clock s input out timed) = s
           \<and> \<not> list_ex is_Decode (calls (Decoder_DecodeInterleaved c clock s input out timed))"
    and "e = CodecError \<Longrightarrow>
           decoder (self (Decoder_DecodeInterleaved c clock s input out timed)) =
             fst (snd (opus_decode c (decoder s) (drop 8 input) (hdr_sz input)
               (of_nat (length out * 2 div 2 div unat (channel_count s))) 0))"
  using assms
  by (auto simp: Decoder_DecodeInterleaved_def sizeof_OpusHeader_def Let_def failed_def
        split: if_splits prod.splits)

lemma handler_failure:
  assumes "failure (decode_call c clock s ctx False) = Some e" and "e \<noteq> Fault"
  shows "DecodeInterleaved c clock s ctx =
         Inr \<lparr>this = self (decode_call c clock s ctx False), reply = generic_failure,
              codec_calls = calls (decode_call c clock s ctx False)\<rparr>"
  using assms by (simp add: DecodeInterleaved_def Let_def)

lemma handler_failure_timed:
  assumes "failure (decode_call c clock s ctx True) = Some e" and "e \<noteq> Fault"
  shows "DecodeInterleavedWithPerformance c clock s ctx =
         Inr \<lparr>this = self (decode_call c clock s ctx True), reply = generic_failure,
              codec_calls = calls (decode_call c clock s ctx True)\<rparr>"
  using assms by (simp add: DecodeInterleavedWithPerformance_def Let_def)

subsection \<open>The configuration of a session\<close>

text \<open>A session made by \<^verbatim>\<open>OpenOpusDecoder\<close> has a whitelisted sample rate and one or two
  channels, and no decode call changes either.\<close>

lemma opened_session_is_valid:
  assumes "OpenOpusDecoder c rate channels buffer_sz = Inr (answer, Some s)"
  shows "valid_sample_rate (sample_rate s)" and "valid_channel_count (channel_count s)"
  using assms
  by (auto simp: OpenOpusDecoder_def WorkerBufferSize_def ASSERT_MSG_def generic_failure_def
        split: if_splits prod.splits)

lemma decode_keeps_configuration:
  "sample_rate (self (Decoder_DecodeInterleaved c clock s input out timed)) = sample_rate s"
  "channel_count (self (Decoder_DecodeInterleaved c clock s input out timed))
     = channel_count s"
  by (simp_all add: Decoder_DecodeInterleaved_def Let_def failed_def split: prod.splits)

section \<open>Arithmetic of the 32-bit operands\<close>

text \<open>
  The value of an \<^verbatim>\<open>int\<close> read from its 32 bits, and the wrapping product
  \<^verbatim>\<open>decoded_sample_count * channel_count\<close> of the capacity check (line 113): the product
  is exact for a non-negative estimate and one or two channels, and it is at least
  \<open>2 ^ 31\<close> for a negative estimate unless two channels meet an estimate below \<open>- 2 ^ 30\<close>.
\<close>

lemma mod_shift:
  fixes k :: int
  assumes "0 \<le> k" and "k < 4294967296"
  shows "(k + 2147483648) mod 4294967296 =
         (if k < 2147483648 then k + 2147483648 else k - 2147483648)"
proof (cases "k < 2147483648")
  case True
  then show ?thesis using assms by (simp add: mod_pos_pos_trivial)
next
  case False
  have "k + 2147483648 = (k - 2147483648) + 4294967296"
    by simp
  then have "(k + 2147483648) mod 4294967296 = ((k - 2147483648) + 4294967296) mod 4294967296"
    by (rule arg_cong)
  also have "\<dots> = (k - 2147483648) mod 4294967296"
    by (simp only: mod_add_self2)
  also have "\<dots> = k - 2147483648"
    using False assms by (simp add: mod_pos_pos_trivial)
  finally show ?thesis using False by simp
qed

lemma sint32:
  "sint (p :: 32 word) =
     (if uint p < 2147483648 then uint p else uint p - 4294967296)"
proof -
  have b: "0 \<le> uint p" "uint p < 4294967296"
    using uint_lt2p [of p] by simp_all
  have "signed_take_bit 31 (uint p) = take_bit 32 (uint p + 2 ^ 31) - 2 ^ 31"
    by (simp add: signed_take_bit_eq_take_bit_shift)
  also have "take_bit 32 (uint p + 2 ^ 31) = (uint p + 2147483648) mod 4294967296"
    by (simp add: take_bit_eq_mod)
  finally show ?thesis using mod_shift [OF b] by (simp add: sint_uint)
qed

lemma sint32_nat:
  "sint (p :: 32 word) =
     (if unat p < 2147483648 then int (unat p) else int (unat p) - 4294967296)"
proof -
  have "uint p = int (unat p)"
    by simp
  then show ?thesis
    using sint32 [of p] by (simp only: of_nat_less_numeral_iff)
qed

lemma unat_times_channels:
  fixes p ch :: "32 word"
  shows "unat (p * ch) = (unat p * unat ch) mod 4294967296"
  by (simp add: unat_word_ariths)

lemma unat32_less: "unat (p :: 32 word) < 4294967296"
  by (rule order_less_le_trans [OF unsigned_less]) simp

lemma nonneg_int_value:
  fixes p :: "32 word"
  assumes "0 \<le> sint p"
  shows "unat p < 2147483648" and "sint p = int (unat p)"
proof -
  note val = sint32_nat [of p]
  show small: "unat p < 2147483648"
  proof (rule ccontr)
    assume "\<not> unat p < 2147483648"
    then have "sint p = int (unat p) - 4294967296"
      using val by (simp only: if_False)
    with unat32_less [of p] assms show False by arith
  qed
  show "sint p = int (unat p)"
    using val small by (simp only: if_True)
qed

lemma negative_int_value:
  fixes p :: "32 word"
  assumes "sint p < 0"
  shows "2147483648 \<le> unat p" and "sint p = int (unat p) - 4294967296"
proof -
  note val = sint32_nat [of p]
  show big: "2147483648 \<le> unat p"
  proof (rule ccontr)
    assume "\<not> 2147483648 \<le> unat p"
    then have "unat p < 2147483648" by arith
    then have "sint p = int (unat p)"
      using val by (simp only: if_True)
    with assms show False by arith
  qed
  then have "\<not> unat p < 2147483648" by arith
  then show "sint p = int (unat p) - 4294967296"
    using val by (simp only: if_False)
qed

lemma estimate_exact:
  fixes p ch :: "32 word"
  assumes "0 \<le> sint p" and "ch = 1 \<or> ch = 2"
  shows "int (unat (p * ch) * 2) = sint p * int (unat ch) * 2"
proof -
  note nonneg_int_value [OF assms(1)]
  moreover have "unat ch = 1 \<or> unat ch = 2"
    using assms(2) by auto
  ultimately have "unat p * unat ch < 4294967296"
    by auto
  then have "unat (p * ch) = unat p * unat ch"
    by (simp only: unat_times_channels mod_less)
  then show ?thesis
    using \<open>sint p = int (unat p)\<close> by (simp only: of_nat_mult)
qed

lemma negative_estimate_wraps:
  fixes p ch :: "32 word"
  assumes "sint p < 0" and "ch = 1 \<or> (ch = 2 \<and> - 1073741824 \<le> sint p)"
  shows "4294967296 \<le> unat (p * ch) * 2"
proof -
  note neg = negative_int_value [OF assms(1)]
  note top = unat32_less [of p]
  from assms(2) show ?thesis
  proof
    assume "ch = 1"
    then show ?thesis using neg(1) by simp
  next
    assume two: "ch = 2 \<and> - 1073741824 \<le> sint p"
    then have lo: "3221225472 \<le> unat p"
      using neg(2) by arith
    have "unat ch = 2" using two by simp
    then have "unat (p * ch) = (unat p * 2) mod 4294967296"
      by (simp only: unat_times_channels)
    also have "\<dots> = (unat p * 2 - 4294967296) mod 4294967296"
      using lo by (simp only: le_mod_geq)
    also have "\<dots> = unat p * 2 - 4294967296"
      using top by (intro mod_less) arith
    finally show ?thesis using lo by arith
  qed
qed

section \<open>Runs of the model on concrete packets\<close>

text \<open>
  A ten-byte packet with one declared payload byte and one byte after it, on any clock;
  a nine-byte packet whose estimate is the least \<^verbatim>\<open>int\<close>, on a two-channel session; and
  a nine-byte packet the codec rejects.
\<close>

lemma replicate_4: "replicate 4 x = [x, x, x, x]"
  by (simp add: numeral_eq_Suc)

lemma replicate_2: "replicate 2 x = [x, x]"
  by (simp add: numeral_eq_Suc)

lemma hdr_sz_example: "hdr_sz [0x12, 0x34, 0x56, 0x78, 0, 0, 0, 0] = 0x12345678"
  by (simp add: hdr_sz_def)

lemmas run_simps =
  Decoder_DecodeInterleaved_def sizeof_OpusHeader_def hdr_sz_def Let_def failed_def stored_def
  milliseconds_def stub_def

lemma run_trailing:
  "decode_call (stub 1 1 [7]) clock mono_session
     \<lparr>ReadBuffer = [0, 0, 0, 1, 0, 0, 0, 0, 0xAA, 0xBB], GetWriteBufferSize = 8\<rparr> timed =
   \<lparr>failure = None, consumed = 9, sample_count = 1,
    performance = (if timed then of_int (milliseconds (clock Finished - clock Entered)) else 0),
    samples = [7, 0, 0, 0], self = \<lparr>decoder = 1, sample_rate = 48000, channel_count = 1\<rparr>,
    calls = [Probe [0xAA, 0xBB] 2 48000, Decode [0xAA, 0xBB] 1 4]\<rparr>"
  by (simp add: Decoder_DecodeInterleaved_def sizeof_OpusHeader_def hdr_sz_def Let_def
        failed_def stored_def stub_def mono_session_def replicate_4)

lemma slow_probe_elapsed:
  "milliseconds (slow_probe Finished - slow_probe Entered) = 5"
  "milliseconds (slow_probe DecodeReturned - slow_probe DecodeCalled) = 0"
  "milliseconds (slow_probe DecodeCalled - slow_probe Entered) = 5"
  by (simp_all add: slow_probe_def milliseconds_def)

lemma set_back_elapsed:
  "milliseconds (set_back Finished - set_back Entered) = - 9"
  by (simp add: set_back_def milliseconds_def)

lemma run_wrapped:
  "decode_call (stub 0x80000000 1 [7]) still_clock stereo_session
     \<lparr>ReadBuffer = [0, 0, 0, 1, 0, 0, 0, 0, 0xAA], GetWriteBufferSize = 4\<rparr> timed =
   \<lparr>failure = None, consumed = 9, sample_count = 1, performance = 0,
    samples = [7, 0], self = \<lparr>decoder = 1, sample_rate = 48000, channel_count = 2\<rparr>,
    calls = [Probe [0xAA] 1 48000, Decode [0xAA] 1 1]\<rparr>"
  by (simp add: run_simps stereo_session_def still_clock_def replicate_2)

lemma run_codec_error:
  "decode_call (stub 1 0xFFFFFFFF []) still_clock mono_session
     \<lparr>ReadBuffer = [0, 0, 0, 1, 0, 0, 0, 0, 0xAA], GetWriteBufferSize = 4\<rparr> timed =
   \<lparr>failure = Some CodecError, consumed = 0, sample_count = 0, performance = 0,
    samples = [0, 0], self = \<lparr>decoder = 1, sample_rate = 48000, channel_count = 1\<rparr>,
    calls = [Probe [0xAA] 1 48000, Decode [0xAA] 1 2]\<rparr>"
  by (simp add: run_simps mono_session_def still_clock_def replicate_2)

section \<open>Elapsed time\<close>

text \<open>
  Claim C1, as stated, fails: the reported time is not the time of the decode call alone.
  On a clock that advances five milliseconds between the entry and the decode call and
  not at all during the decode call, \<^verbatim>\<open>DecodeInterleavedWithPerformance\<close> reports 5.
\<close>

theorem elapsed_time_counterexample:
  "DecodeInterleavedWithPerformance (stub 1 1 [7]) slow_probe mono_session
     \<lparr>ReadBuffer = [0, 0, 0, 1, 0, 0, 0, 0, 0xAA, 0xBB], GetWriteBufferSize = 8\<rparr> =
   Inr \<lparr>this = \<lparr>decoder = 1, sample_rate = 48000, channel_count = 1\<rparr>,
        reply = \<lparr>result = RESULT_SUCCESS, words = [Push_u32 9, Push_u32 1, Push_u64 5],
                 WriteBuffer = Some [7, 0, 0, 0]\<rparr>,
        codec_calls = [Probe [0xAA, 0xBB] 2 48000, Decode [0xAA, 0xBB] 1 4]\<rparr>
   \<and> milliseconds (slow_probe DecodeReturned - slow_probe DecodeCalled) = 0
   \<and> milliseconds (slow_probe DecodeCalled - slow_probe Entered) = 5"
  unfolding DecodeInterleavedWithPerformance_def run_trailing
  by (simp add: slow_probe_elapsed)

text \<open>
  Claim C1, amended. After a successful \<^verbatim>\<open>DecodeInterleavedWithPerformance\<close> the reported
  value is the reading of the clock after the decode call and its result check (line 130)
  minus the reading on entry, before the header check (line 95), in whole milliseconds
  rounded towards zero and stored as an unsigned 64-bit number. It spans the header
  check, the header parse, the bounds check, the probe and the capacity check together
  with the decode call. When the clock did not go back between the two readings it is the
  non-negative number of whole milliseconds between them; when it did, the negative
  count is stored modulo \<open>2 ^ 64\<close>.
\<close>

theorem elapsed_time_is_measured_from_entry:
  assumes "failure (decode_call c clock s ctx True) = None"
  shows "(\<exists>h. DecodeInterleavedWithPerformance c clock s ctx = Inr h
            \<and> result (reply h) = RESULT_SUCCESS
            \<and> last (words (reply h)) =
                Push_u64 (of_int (milliseconds (clock Finished - clock Entered))))
       \<and> uint (performance (decode_call c clock s ctx True))
           = milliseconds (clock Finished - clock Entered) mod 2 ^ 64
       \<and> (clock Entered \<le> clock Finished \<longrightarrow>
            clock Finished - clock Entered < 2 ^ 63 \<longrightarrow>
            uint (performance (decode_call c clock s ctx True))
              = (clock Finished - clock Entered) div 1000000)"
proof -
  let ?d = "clock Finished - clock Entered"
  have perf: "performance (decode_call c clock s ctx True) = of_int (milliseconds ?d)"
    using decode_success(4) [OF assms] by (simp only: if_True)
  then have handler: "\<exists>h. DecodeInterleavedWithPerformance c clock s ctx = Inr h
            \<and> result (reply h) = RESULT_SUCCESS
            \<and> last (words (reply h)) = Push_u64 (of_int (milliseconds ?d))"
    using assms by (simp add: DecodeInterleavedWithPerformance_def Let_def)
  have stored: "uint (performance (decode_call c clock s ctx True))
                  = milliseconds ?d mod 2 ^ 64"
    unfolding perf by (simp add: uint_word_of_int)
  have forward: "uint (performance (decode_call c clock s ctx True)) = ?d div 1000000"
    if "clock Entered \<le> clock Finished" and "?d < 2 ^ 63"
  proof -
    have nonneg: "0 \<le> ?d"
      using that(1) by simp
    then have ms: "milliseconds ?d = ?d div 1000000"
      by (simp add: milliseconds_def)
    have "0 \<le> ?d div 1000000"
      using nonneg by (simp add: pos_imp_zdiv_nonneg_iff)
    moreover have "?d div 1000000 \<le> ?d"
      using nonneg by arith
    ultimately have "(?d div 1000000) mod 2 ^ 64 = ?d div 1000000"
      using that(2) by (intro mod_pos_pos_trivial) simp_all
    then show ?thesis
      using stored ms by simp
  qed
  show ?thesis using handler stored forward by blast
qed

theorem elapsed_time_is_measured_from_entry_witness:
  "failure (decode_call (stub 1 1 [7]) slow_probe mono_session
     \<lparr>ReadBuffer = [0, 0, 0, 1, 0, 0, 0, 0, 0xAA, 0xBB], GetWriteBufferSize = 8\<rparr> True) = None
   \<and> (\<exists>h. DecodeInterleavedWithPerformance (stub 1 1 [7]) slow_probe mono_session
            \<lparr>ReadBuffer = [0, 0, 0, 1, 0, 0, 0, 0, 0xAA, 0xBB], GetWriteBufferSize = 8\<rparr> = Inr h
          \<and> last (words (reply h)) = Push_u64 5)
   \<and> failure (decode_call (stub 1 1 [7]) set_back mono_session
     \<lparr>ReadBuffer = [0, 0, 0, 1, 0, 0, 0, 0, 0xAA, 0xBB], GetWriteBufferSize = 8\<rparr> True) = None
   \<and> uint (performance (decode_call (stub 1 1 [7]) set_back mono_session
     \<lparr>ReadBuffer = [0, 0, 0, 1, 0, 0, 0, 0, 0xAA, 0xBB], GetWriteBufferSize = 8\<rparr> True))
       = 18446744073709551607"
  using elapsed_time_is_measured_from_entry
    [of "stub 1 1 [7]" slow_probe mono_session
        "\<lparr>ReadBuffer = [0, 0, 0, 1, 0, 0, 0, 0, 0xAA, 0xBB], GetWriteBufferSize = 8\<rparr>"]
    elapsed_time_is_measured_from_entry
    [of "stub 1 1 [7]" set_back mono_session
        "\<lparr>ReadBuffer = [0, 0, 0, 1, 0, 0, 0, 0, 0xAA, 0xBB], GetWriteBufferSize = 8\<rparr>"]
  unfolding run_trailing by (auto simp: slow_probe_elapsed set_back_elapsed)

section \<open>Samples written\<close>

text \<open>
  Claim C2, as stated, fails: with eight bytes of output capacity, one channel and a
  codec that produces one sample, four samples are handed to \<^verbatim>\<open>WriteBuffer\<close>, not one.
\<close>

theorem written_samples_counterexample:
  "DecodeInterleaved (stub 1 1 [7]) slow_probe mono_session
     \<lparr>ReadBuffer = [0, 0, 0, 1, 0, 0, 0, 0, 0xAA, 0xBB], GetWriteBufferSize = 8\<rparr> =
   Inr \<lparr>this = \<lparr>decoder = 1, sample_rate = 48000, channel_count = 1\<rparr>,
        reply = \<lparr>result = RESULT_SUCCESS, words = [Push_u32 9, Push_u32 1],
                 WriteBuffer = Some [7, 0, 0, 0]\<rparr>,
        codec_calls = [Probe [0xAA, 0xBB] 2 48000, Decode [0xAA, 0xBB] 1 4]\<rparr>
   \<and> length [7, 0, 0, 0 :: opus_int16] \<noteq> unat (1 :: u32) * unat (channel_count mono_session)"
  unfolding DecodeInterleaved_def run_trailing
  by (simp add: mono_session_def)

text \<open>
  Claim C2, amended. After a successful decode call, in both variants, the whole output
  vector is handed to \<^verbatim>\<open>WriteBuffer\<close>: exactly \<^verbatim>\<open>GetWriteBufferSize() / 2\<close> 16-bit samples,
  which are what the codec stored from the first element on, followed by the zeros the
  vector was created with. The \<^verbatim>\<open>sample_count\<close> result is the value returned by the
  decode call; it does not bound what is written.
\<close>

theorem whole_output_vector_is_written:
  assumes "failure (decode_call c clock s ctx timed) = None"
  shows "(\<exists>h. (if timed then DecodeInterleavedWithPerformance c clock s ctx
                else DecodeInterleaved c clock s ctx) = Inr h
            \<and> WriteBuffer (reply h) = Some (samples (decode_call c clock s ctx timed)))
       \<and> length (samples (decode_call c clock s ctx timed)) = GetWriteBufferSize ctx div 2
       \<and> samples (decode_call c clock s ctx timed) =
           stored (replicate (GetWriteBufferSize ctx div 2) 0)
             (snd (snd (opus_decode c (decoder s) (drop 8 (ReadBuffer ctx))
                (hdr_sz (ReadBuffer ctx))
                (of_nat (GetWriteBufferSize ctx div 2 div unat (channel_count s))) 0)))
       \<and> sample_count (decode_call c clock s ctx timed) =
           fst (opus_decode c (decoder s) (drop 8 (ReadBuffer ctx)) (hdr_sz (ReadBuffer ctx))
                (of_nat (GetWriteBufferSize ctx div 2 div unat (channel_count s))) 0)"
proof -
  have both: "failure (decode_call c clock s ctx t) = None" for t
    using assms
    by (simp add: Decoder_DecodeInterleaved_def Let_def failed_def split: prod.splits if_splits)
  have "\<exists>h. (if timed then DecodeInterleavedWithPerformance c clock s ctx
                else DecodeInterleaved c clock s ctx) = Inr h
            \<and> WriteBuffer (reply h) = Some (samples (decode_call c clock s ctx timed))"
    using both [of True] both [of False]
    by (simp add: DecodeInterleaved_def DecodeInterleavedWithPerformance_def Let_def)
  then show ?thesis
    using decode_success(3) [OF assms] decode_success_samples [OF assms] by simp
qed

theorem whole_output_vector_is_written_witness:
  "failure (decode_call (stub 1 1 [7]) slow_probe mono_session
     \<lparr>ReadBuffer = [0, 0, 0, 1, 0, 0, 0, 0, 0xAA, 0xBB], GetWriteBufferSize = 8\<rparr> False) = None
   \<and> length (samples (decode_call (stub 1 1 [7]) slow_probe mono_session
     \<lparr>ReadBuffer = [0, 0, 0, 1, 0, 0, 0, 0, 0xAA, 0xBB], GetWriteBufferSize = 8\<rparr> False)) = 4"
  using whole_output_vector_is_written
    [of "stub 1 1 [7]" slow_probe mono_session
        "\<lparr>ReadBuffer = [0, 0, 0, 1, 0, 0, 0, 0, 0xAA, 0xBB], GetWriteBufferSize = 8\<rparr>" False]
  unfolding run_trailing by (simp add: stub_def stored_def replicate_4)

section \<open>The capacity check\<close>

text \<open>
  Claim C3. For a session with one or two channels and an input that passes the framing
  checks: if the probe's estimate times the channel count times two bytes exceeds the
  declared output capacity, the call fails with a capacity error and the decode function
  of the codec is not called; and whenever the decode function is called, its frame-size
  argument is \<^verbatim>\<open>GetWriteBufferSize() / 2 / channel_count\<close>, converted to \<^verbatim>\<open>int\<close> as
  line 120 does, which is the exact quotient whenever that is below \<open>2 ^ 31\<close>.
\<close>

theorem capacity_checked_before_decode:
  assumes "valid_channel_count (channel_count s)"
    and "8 + unat (hdr_sz (ReadBuffer ctx)) \<le> length (ReadBuffer ctx)"
  shows "(int (GetWriteBufferSize ctx)
            < sint (opus_packet_get_nb_samples c (drop 8 (ReadBuffer ctx))
                      (of_nat (length (ReadBuffer ctx) - 8)) (sample_rate s))
                * uint (channel_count s) * 2
          \<longrightarrow> failure (decode_call c clock s ctx timed) = Some CapacityError
              \<and> \<not> list_ex is_Decode (calls (decode_call c clock s ctx timed)))
       \<and> (\<forall>call \<in> set (calls (decode_call c clock s ctx timed)).
             is_Decode call \<longrightarrow>
             call = Decode (drop 8 (ReadBuffer ctx)) (hdr_sz (ReadBuffer ctx))
                      (of_nat (GetWriteBufferSize ctx div 2 div unat (channel_count s))))
       \<and> (GetWriteBufferSize ctx div 2 div unat (channel_count s) < 2 ^ 31 \<longrightarrow>
             sint (of_nat (GetWriteBufferSize ctx div 2 div unat (channel_count s)) :: c_int)
               = int (GetWriteBufferSize ctx div 2 div unat (channel_count s)))"
proof -
  let ?p = "opus_packet_get_nb_samples c (drop 8 (ReadBuffer ctx))
              (of_nat (length (ReadBuffer ctx) - 8)) (sample_rate s)"
  let ?cap = "GetWriteBufferSize ctx"
  let ?out = "replicate (?cap div 2) (0 :: opus_int16)"
  let ?q = "?cap div 2 div unat (channel_count s)"
  have ch: "channel_count s = 1 \<or> channel_count s = 2"
    using assms(1) by (simp add: valid_channel_count_def)
  have first: "failure (decode_call c clock s ctx timed) = Some CapacityError
             \<and> \<not> list_ex is_Decode (calls (decode_call c clock s ctx timed))"
    if over: "int ?cap < sint ?p * uint (channel_count s) * 2"
  proof -
    have "0 \<le> sint ?p"
    proof (rule ccontr)
      assume "\<not> 0 \<le> sint ?p"
      then have "sint ?p \<le> 0"
        by simp
      then have "sint ?p * uint (channel_count s) \<le> 0"
        by (rule mult_nonpos_nonneg) simp
      then have "sint ?p * uint (channel_count s) * 2 \<le> 0"
        by (rule mult_nonpos_nonneg) simp
      with over show False by linarith
    qed
    then have "int (unat (?p * channel_count s) * 2) = sint ?p * uint (channel_count s) * 2"
      using estimate_exact [OF _ ch, of ?p] by simp
    with over have "?cap < unat (?p * channel_count s) * 2"
      by linarith
    then have "length ?out * 2 < unat (?p * channel_count s) * 2"
      by simp
    from decode_probed [OF assms(2) this]
    show ?thesis by (simp add: failed_def)
  qed
  have second: "\<forall>call \<in> set (calls (decode_call c clock s ctx timed)).
             is_Decode call \<longrightarrow>
             call = Decode (drop 8 (ReadBuffer ctx)) (hdr_sz (ReadBuffer ctx)) (of_nat ?q)"
    using decode_calls_shape [OF assms(2), of c clock s ?out timed] by auto
  have third: "sint (of_nat ?q :: c_int) = int ?q" if "?q < 2 ^ 31"
  proof -
    have "?q < 2 ^ LENGTH(32)"
      using that by simp
    then have "unat (of_nat ?q :: c_int) = ?q"
      by (simp only: unat_of_nat mod_less)
    moreover have "unat (of_nat ?q :: c_int) < 2147483648"
      using that calculation by simp
    ultimately show ?thesis
      using sint32_nat [of "of_nat ?q"] by (simp only: if_True)
  qed
  show ?thesis using first second third by blast
qed

theorem capacity_checked_before_decode_witness:
  "valid_channel_count (channel_count mono_session)
   \<and> 8 + unat (hdr_sz (ReadBuffer \<lparr>ReadBuffer = [0, 0, 0, 1, 0, 0, 0, 0, 0xAA, 0xBB],
                                     GetWriteBufferSize = 8\<rparr>))
       \<le> length (ReadBuffer \<lparr>ReadBuffer = [0, 0, 0, 1, 0, 0, 0, 0, 0xAA, 0xBB],
                               GetWriteBufferSize = 8\<rparr>)
   \<and> failure (decode_call (stub 960 1 [7]) still_clock mono_session
         \<lparr>ReadBuffer = [0, 0, 0, 1, 0, 0, 0, 0, 0xAA, 0xBB], GetWriteBufferSize = 8\<rparr> False)
       = Some CapacityError
   \<and> \<not> list_ex is_Decode (calls (decode_call (stub 960 1 [7]) still_clock mono_session
         \<lparr>ReadBuffer = [0, 0, 0, 1, 0, 0, 0, 0, 0xAA, 0xBB], GetWriteBufferSize = 8\<rparr> False))"
  using capacity_checked_before_decode
    [of mono_session "\<lparr>ReadBuffer = [0, 0, 0, 1, 0, 0, 0, 0, 0xAA, 0xBB],
                        GetWriteBufferSize = 8\<rparr>" "stub 960 1 [7]" still_clock False]
  by (simp add: valid_channel_count_def mono_session_def hdr_sz_def stub_def)

section \<open>Framing errors\<close>

text \<open>
  Claim C4. An input shorter than the eight-byte header makes the decode call fail with a
  framing error in both variants: the handler replies with the generic failure status and
  does not fault, no codec function is called, the session is untouched, and nothing is
  handed to \<^verbatim>\<open>WriteBuffer\<close>.
\<close>

theorem short_packet_is_framing_error:
  assumes "length (ReadBuffer ctx) < 8"
  shows "failure (decode_call c clock s ctx timed) = Some FramingError
       \<and> calls (decode_call c clock s ctx timed) = []
       \<and> DecodeInterleaved c clock s ctx =
           Inr \<lparr>this = s, reply = generic_failure, codec_calls = []\<rparr>
       \<and> DecodeInterleavedWithPerformance c clock s ctx =
           Inr \<lparr>this = s, reply = generic_failure, codec_calls = []\<rparr>
       \<and> WriteBuffer generic_failure = None"
proof -
  have r: "decode_call c clock s ctx t =
           failed FramingError (replicate (GetWriteBufferSize ctx div 2) 0) s []" for t
    using assms by (rule decode_short)
  have "DecodeInterleaved c clock s ctx =
          Inr \<lparr>this = s, reply = generic_failure, codec_calls = []\<rparr>"
    using handler_failure [of c clock s ctx FramingError] by (simp add: r failed_def)
  moreover have "DecodeInterleavedWithPerformance c clock s ctx =
          Inr \<lparr>this = s, reply = generic_failure, codec_calls = []\<rparr>"
    using handler_failure_timed [of c clock s ctx FramingError] by (simp add: r failed_def)
  ultimately show ?thesis by (simp add: r failed_def generic_failure_def)
qed

theorem short_packet_is_framing_error_witness:
  "length (ReadBuffer \<lparr>ReadBuffer = [0, 0, 1], GetWriteBufferSize = 8\<rparr>) < 8
   \<and> DecodeInterleaved (stub 1 1 [7]) still_clock mono_session
        \<lparr>ReadBuffer = [0, 0, 1], GetWriteBufferSize = 8\<rparr> =
      Inr \<lparr>this = mono_session, reply = generic_failure, codec_calls = []\<rparr>"
  using short_packet_is_framing_error
    [of "\<lparr>ReadBuffer = [0, 0, 1], GetWriteBufferSize = 8\<rparr>" "stub 1 1 [7]" still_clock
        mono_session False]
  by simp

text \<open>
  Claim C5. An input of at least eight bytes whose big-endian \<^verbatim>\<open>sz\<close> field declares more
  payload than the input holds (header size plus \<^verbatim>\<open>sz\<close> exceeds the input length) makes
  the decode call fail with a framing error, and no codec function is called.
\<close>

theorem overlong_payload_is_framing_error:
  assumes "8 \<le> length (ReadBuffer ctx)"
    and "length (ReadBuffer ctx) < 8 + unat (hdr_sz (ReadBuffer ctx))"
  shows "failure (decode_call c clock s ctx timed) = Some FramingError
       \<and> calls (decode_call c clock s ctx timed) = []
       \<and> DecodeInterleaved c clock s ctx =
           Inr \<lparr>this = s, reply = generic_failure, codec_calls = []\<rparr>
       \<and> DecodeInterleavedWithPerformance c clock s ctx =
           Inr \<lparr>this = s, reply = generic_failure, codec_calls = []\<rparr>"
proof -
  have r: "decode_call c clock s ctx t =
           failed FramingError (replicate (GetWriteBufferSize ctx div 2) 0) s []" for t
    using assms by (rule decode_overrun)
  have "DecodeInterleaved c clock s ctx =
          Inr \<lparr>this = s, reply = generic_failure, codec_calls = []\<rparr>"
    using handler_failure [of c clock s ctx FramingError] by (simp add: r failed_def)
  moreover have "DecodeInterleavedWithPerformance c clock s ctx =
          Inr \<lparr>this = s, reply = generic_failure, codec_calls = []\<rparr>"
    using handler_failure_timed [of c clock s ctx FramingError] by (simp add: r failed_def)
  ultimately show ?thesis by (simp add: r failed_def)
qed

theorem overlong_payload_is_framing_error_witness:
  "8 \<le> length (ReadBuffer \<lparr>ReadBuffer = [0, 0, 0, 3, 0, 0, 0, 0, 0xAA, 0xBB],
                           GetWriteBufferSize = 8\<rparr>)
   \<and> length (ReadBuffer \<lparr>ReadBuffer = [0, 0, 0, 3, 0, 0, 0, 0, 0xAA, 0xBB],
                           GetWriteBufferSize = 8\<rparr>)
       < 8 + unat (hdr_sz (ReadBuffer \<lparr>ReadBuffer = [0, 0, 0, 3, 0, 0, 0, 0, 0xAA, 0xBB],
                           GetWriteBufferSize = 8\<rparr>))
   \<and> calls (decode_call (stub 1 1 [7]) still_clock mono_session
        \<lparr>ReadBuffer = [0, 0, 0, 3, 0, 0, 0, 0, 0xAA, 0xBB], GetWriteBufferSize = 8\<rparr> True) = []"
  using overlong_payload_is_framing_error
    [of "\<lparr>ReadBuffer = [0, 0, 0, 3, 0, 0, 0, 0, 0xAA, 0xBB], GetWriteBufferSize = 8\<rparr>"
        "stub 1 1 [7]" still_clock mono_session True]
  by (simp add: hdr_sz_def)

section \<open>Consumed bytes\<close>

text \<open>
  Claim C6. After a successful decode call the \<^verbatim>\<open>consumed\<close> result is the header size
  plus the \<^verbatim>\<open>sz\<close> field of the header, for every codec: it does not depend on what the
  codec did with the payload. \<^verbatim>\<open>consumed\<close> is a \<^verbatim>\<open>u32\<close>, so the sum is a 32-bit one; it is
  the exact sum of the two numbers for every input shorter than \<open>2 ^ 32\<close> bytes. Each
  handler pushes it first after the success code.
\<close>

theorem consumed_is_header_plus_payload:
  assumes "failure (decode_call c clock s ctx timed) = None"
  shows "consumed (decode_call c clock s ctx timed) = 8 + hdr_sz (ReadBuffer ctx)
       \<and> (length (ReadBuffer ctx) < 2 ^ 32 \<longrightarrow>
            unat (consumed (decode_call c clock s ctx timed))
              = 8 + unat (hdr_sz (ReadBuffer ctx)))
       \<and> (\<not> timed \<longrightarrow>
            (\<exists>h. DecodeInterleaved c clock s ctx = Inr h
                 \<and> result (reply h) = RESULT_SUCCESS
                 \<and> hd (words (reply h)) = Push_u32 (8 + hdr_sz (ReadBuffer ctx))))
       \<and> (timed \<longrightarrow>
            (\<exists>h. DecodeInterleavedWithPerformance c clock s ctx = Inr h
                 \<and> result (reply h) = RESULT_SUCCESS
                 \<and> hd (words (reply h)) = Push_u32 (8 + hdr_sz (ReadBuffer ctx))))"
proof -
  note ok = decode_success [OF assms]
  have fits: "8 + unat (hdr_sz (ReadBuffer ctx)) < 2 ^ 32" if "length (ReadBuffer ctx) < 2 ^ 32"
    using ok(1) that by simp
  have exact: "unat (8 + hdr_sz (ReadBuffer ctx)) = 8 + unat (hdr_sz (ReadBuffer ctx))"
    if "length (ReadBuffer ctx) < 2 ^ 32"
    using fits [OF that] by (simp add: unat_word_ariths)
  have plain: "\<exists>h. DecodeInterleaved c clock s ctx = Inr h
                 \<and> result (reply h) = RESULT_SUCCESS
                 \<and> hd (words (reply h)) = Push_u32 (8 + hdr_sz (ReadBuffer ctx))"
    if "\<not> timed"
    using assms that ok(2) by (simp add: DecodeInterleaved_def Let_def)
  have perf: "\<exists>h. DecodeInterleavedWithPerformance c clock s ctx = Inr h
                 \<and> result (reply h) = RESULT_SUCCESS
                 \<and> hd (words (reply h)) = Push_u32 (8 + hdr_sz (ReadBuffer ctx))"
    if "timed"
    using assms that ok(2) by (simp add: DecodeInterleavedWithPerformance_def Let_def)
  show ?thesis using ok(2) exact plain perf by simp
qed

theorem consumed_is_header_plus_payload_witness:
  "failure (decode_call (stub 1 1 [7]) slow_probe mono_session
     \<lparr>ReadBuffer = [0, 0, 0, 1, 0, 0, 0, 0, 0xAA, 0xBB], GetWriteBufferSize = 8\<rparr> False) = None
   \<and> unat (consumed (decode_call (stub 1 1 [7]) slow_probe mono_session
     \<lparr>ReadBuffer = [0, 0, 0, 1, 0, 0, 0, 0, 0xAA, 0xBB], GetWriteBufferSize = 8\<rparr> False)) = 9"
  using consumed_is_header_plus_payload
    [of "stub 1 1 [7]" slow_probe mono_session
        "\<lparr>ReadBuffer = [0, 0, 0, 1, 0, 0, 0, 0, 0xAA, 0xBB], GetWriteBufferSize = 8\<rparr>" False]
  unfolding run_trailing by (simp add: hdr_sz_def)

section \<open>The probe\<close>

text \<open>
  Claim C7, as stated, fails: for a packet that declares one payload byte and carries two
  bytes after the header, the probe is called with length 2, not 1.
\<close>

theorem probe_length_counterexample:
  "hd (calls (decode_call (stub 1 1 [7]) slow_probe mono_session
         \<lparr>ReadBuffer = [0, 0, 0, 1, 0, 0, 0, 0, 0xAA, 0xBB], GetWriteBufferSize = 8\<rparr> False))
     = Probe [0xAA, 0xBB] 2 48000
   \<and> hdr_sz [0, 0, 0, 1, 0, 0, 0, 0, 0xAA, 0xBB] = 1
   \<and> (2 :: c_int) \<noteq> hdr_sz [0, 0, 0, 1, 0, 0, 0, 0, 0xAA, 0xBB]"
  unfolding run_trailing by (simp add: hdr_sz_def)

text \<open>
  Claim C7, amended. For every input that passes the framing checks the probe is called
  exactly once, with the bytes after the header, the session's sample rate, and a length
  argument equal to the input length minus the header size, converted to \<^verbatim>\<open>opus_int32\<close>:
  the count of all bytes after the header. When no byte follows the declared payload,
  that argument is the declared payload size; and for an input with fewer than \<open>2 ^ 32\<close>
  bytes after the header it is the declared payload size only then.
\<close>

theorem probe_is_given_all_bytes_after_header:
  assumes "8 + unat (hdr_sz (ReadBuffer ctx)) \<le> length (ReadBuffer ctx)"
  shows "filter (\<lambda>call. \<not> is_Decode call) (calls (decode_call c clock s ctx timed)) =
           [Probe (drop 8 (ReadBuffer ctx)) (of_nat (length (ReadBuffer ctx) - 8))
              (sample_rate s)]
       \<and> hd (calls (decode_call c clock s ctx timed)) =
           Probe (drop 8 (ReadBuffer ctx)) (of_nat (length (ReadBuffer ctx) - 8))
             (sample_rate s)
       \<and> (length (ReadBuffer ctx) = 8 + unat (hdr_sz (ReadBuffer ctx)) \<longrightarrow>
            (of_nat (length (ReadBuffer ctx) - 8) :: c_int) = hdr_sz (ReadBuffer ctx))
       \<and> (length (ReadBuffer ctx) - 8 < 2 ^ 32 \<longrightarrow>
            ((of_nat (length (ReadBuffer ctx) - 8) :: c_int) = hdr_sz (ReadBuffer ctx)
             \<longleftrightarrow> length (ReadBuffer ctx) = 8 + unat (hdr_sz (ReadBuffer ctx))))"
proof -
  let ?n = "length (ReadBuffer ctx) - 8"
  have exact: "(of_nat ?n :: c_int) = hdr_sz (ReadBuffer ctx)"
    if "length (ReadBuffer ctx) = 8 + unat (hdr_sz (ReadBuffer ctx))"
    using that by simp
  have only: "length (ReadBuffer ctx) = 8 + unat (hdr_sz (ReadBuffer ctx))"
    if small: "?n < 2 ^ 32" and same: "(of_nat ?n :: c_int) = hdr_sz (ReadBuffer ctx)"
  proof -
    have "?n < 2 ^ LENGTH(32)"
      using small by simp
    then have "unat (of_nat ?n :: c_int) = ?n"
      by (simp only: unat_of_nat mod_less)
    then have "unat (hdr_sz (ReadBuffer ctx)) = ?n"
      using same by simp
    then show ?thesis
      using assms by arith
  qed
  show ?thesis
    using decode_calls_shape
      [OF assms, of c clock s "replicate (GetWriteBufferSize ctx div 2) 0" timed]
      exact only
    by auto
qed

theorem probe_is_given_all_bytes_after_header_witness:
  "8 + unat (hdr_sz (ReadBuffer \<lparr>ReadBuffer = [0, 0, 0, 1, 0, 0, 0, 0, 0xAA],
                                   GetWriteBufferSize = 8\<rparr>))
       \<le> length (ReadBuffer \<lparr>ReadBuffer = [0, 0, 0, 1, 0, 0, 0, 0, 0xAA],
                               GetWriteBufferSize = 8\<rparr>)
   \<and> hd (calls (decode_call (stub 1 1 [7]) still_clock mono_session
         \<lparr>ReadBuffer = [0, 0, 0, 1, 0, 0, 0, 0, 0xAA], GetWriteBufferSize = 8\<rparr> False))
       = Probe [0xAA] 1 48000
   \<and> hdr_sz [0, 0, 0, 1, 0, 0, 0, 0, 0xAA] = 1
   \<and> 8 + unat (hdr_sz (ReadBuffer \<lparr>ReadBuffer = [0, 0, 0, 1, 0, 0, 0, 0, 0xAA, 0xBB],
                                   GetWriteBufferSize = 8\<rparr>))
       \<le> length (ReadBuffer \<lparr>ReadBuffer = [0, 0, 0, 1, 0, 0, 0, 0, 0xAA, 0xBB],
                               GetWriteBufferSize = 8\<rparr>)
   \<and> length (ReadBuffer \<lparr>ReadBuffer = [0, 0, 0, 1, 0, 0, 0, 0, 0xAA, 0xBB],
                           GetWriteBufferSize = 8\<rparr>) - 8 < 2 ^ 32
   \<and> filter (\<lambda>call. \<not> is_Decode call)
        (calls (decode_call (stub 1 1 [7]) still_clock mono_session
           \<lparr>ReadBuffer = [0, 0, 0, 1, 0, 0, 0, 0, 0xAA, 0xBB], GetWriteBufferSize = 8\<rparr> False))
       = [Probe [0xAA, 0xBB] 2 48000]
   \<and> hdr_sz [0, 0, 0, 1, 0, 0, 0, 0, 0xAA, 0xBB] \<noteq> 2"
  using probe_is_given_all_bytes_after_header
    [of "\<lparr>ReadBuffer = [0, 0, 0, 1, 0, 0, 0, 0, 0xAA], GetWriteBufferSize = 8\<rparr>"
        "stub 1 1 [7]" still_clock mono_session False]
    probe_is_given_all_bytes_after_header
    [of "\<lparr>ReadBuffer = [0, 0, 0, 1, 0, 0, 0, 0, 0xAA, 0xBB], GetWriteBufferSize = 8\<rparr>"
        "stub 1 1 [7]" still_clock mono_session False]
  by (simp add: hdr_sz_def mono_session_def)

section \<open>Opening a decoder\<close>

text \<open>
  Claim C8. For a whitelisted sample rate and channel count, \<^verbatim>\<open>WorkerBufferSize\<close> gives
  the required size; a call of \<^verbatim>\<open>OpenOpusDecoder\<close> with a smaller buffer size is a contract
  error and never succeeds, and a session is constructed only when the supplied buffer
  size is at least the required size.
\<close>

theorem undersized_work_buffer_never_opens:
  assumes "valid_sample_rate rate" and "valid_channel_count channels"
  shows "\<exists>required. WorkerBufferSize c channels = Inr required
           \<and> (unat buffer_sz < required \<longrightarrow>
                OpenOpusDecoder c rate channels buffer_sz = Inl ContractError)
           \<and> (\<forall>answer s. OpenOpusDecoder c rate channels buffer_sz = Inr (answer, Some s)
                \<longrightarrow> required \<le> unat buffer_sz)"
  using assms
  by (auto simp: WorkerBufferSize_def OpenOpusDecoder_def ASSERT_MSG_def
        split: prod.splits if_splits)

theorem undersized_work_buffer_never_opens_witness:
  "valid_sample_rate 48000 \<and> valid_channel_count 1
   \<and> WorkerBufferSize (stub 1 1 [7]) 1 = Inr 18228
   \<and> OpenOpusDecoder (stub 1 1 [7]) 48000 1 18227 = Inl ContractError
   \<and> OpenOpusDecoder (stub 1 1 [7]) 48000 1 18228 =
       Inr (\<lparr>result = RESULT_SUCCESS, words = [], WriteBuffer = None\<rparr>,
            Some \<lparr>decoder = 0, sample_rate = 48000, channel_count = 1\<rparr>)"
  using undersized_work_buffer_never_opens [of 48000 1 "stub 1 1 [7]" 18227]
  by (simp add: valid_sample_rate_def valid_channel_count_def WorkerBufferSize_def
        OpenOpusDecoder_def ASSERT_MSG_def size_t_of_int_def stub_def)

section \<open>Failed calls and the session\<close>

text \<open>
  Claim C9, as stated, fails: a decode call that fails with a codec error has passed the
  decoder memory to the codec, and the session keeps what the codec left there. With a
  codec that counts its decode calls in the decoder memory, the failed call changes the
  session.
\<close>

theorem codec_state_counterexample:
  "DecodeInterleaved (stub 1 0xFFFFFFFF []) still_clock mono_session
     \<lparr>ReadBuffer = [0, 0, 0, 1, 0, 0, 0, 0, 0xAA], GetWriteBufferSize = 4\<rparr> =
   Inr \<lparr>this = \<lparr>decoder = 1, sample_rate = 48000, channel_count = 1\<rparr>,
        reply = generic_failure,
        codec_calls = [Probe [0xAA] 1 48000, Decode [0xAA] 1 2]\<rparr>
   \<and> decoder mono_session = 0
   \<and> \<lparr>decoder = 1, sample_rate = 48000, channel_count = 1\<rparr> \<noteq> mono_session"
  unfolding DecodeInterleaved_def run_codec_error
  by (simp add: mono_session_def)

text \<open>
  Claim C9, amended. For a session with one or two channels, a decode call that fails
  fails with a framing, capacity or codec error; the handler replies with the single
  generic failure status and hands nothing to \<^verbatim>\<open>WriteBuffer\<close>; the session keeps its
  sample rate and channel count and stays usable. After a framing or capacity error the
  decode function of the codec was not called and the session, decoder memory included,
  is unchanged, so later calls behave as if the failed one had not happened. After a
  codec error the decoder memory is what the codec's decode call left.
\<close>

theorem failed_call_keeps_session_open:
  assumes "valid_channel_count (channel_count s)"
    and "failure (decode_call c clock s ctx timed) = Some e"
  shows "(e = FramingError \<or> e = CapacityError \<or> e = CodecError)
       \<and> (if timed then DecodeInterleavedWithPerformance c clock s ctx
           else DecodeInterleaved c clock s ctx) =
          Inr \<lparr>this = self (decode_call c clock s ctx timed), reply = generic_failure,
               codec_calls = calls (decode_call c clock s ctx timed)\<rparr>
       \<and> WriteBuffer generic_failure = None
       \<and> sample_rate (self (decode_call c clock s ctx timed)) = sample_rate s
       \<and> channel_count (self (decode_call c clock s ctx timed)) = channel_count s
       \<and> (e \<noteq> CodecError \<longrightarrow>
            self (decode_call c clock s ctx timed) = s
            \<and> \<not> list_ex is_Decode (calls (decode_call c clock s ctx timed)))
       \<and> (e = CodecError \<longrightarrow>
            decoder (self (decode_call c clock s ctx timed)) =
              fst (snd (opus_decode c (decoder s) (drop 8 (ReadBuffer ctx))
                (hdr_sz (ReadBuffer ctx))
                (of_nat (GetWriteBufferSize ctx div 2 div unat (channel_count s))) 0)))"
proof -
  have nz: "channel_count s \<noteq> 0"
    using assms(1) by (auto simp: valid_channel_count_def)
  note cases = decode_failure_cases [OF assms(2) nz]
  have kind: "e \<noteq> Fault"
    using cases(1) by auto
  have handler: "(if timed then DecodeInterleavedWithPerformance c clock s ctx
           else DecodeInterleaved c clock s ctx) =
          Inr \<lparr>this = self (decode_call c clock s ctx timed), reply = generic_failure,
               codec_calls = calls (decode_call c clock s ctx timed)\<rparr>"
  proof (cases timed)
    case True
    then show ?thesis
      using handler_failure_timed [of c clock s ctx e] assms(2) kind by simp
  next
    case False
    then show ?thesis
      using handler_failure [of c clock s ctx e] assms(2) kind by simp
  qed
  have codec: "decoder (self (decode_call c clock s ctx timed)) =
              fst (snd (opus_decode c (decoder s) (drop 8 (ReadBuffer ctx))
                (hdr_sz (ReadBuffer ctx))
                (of_nat (GetWriteBufferSize ctx div 2 div unat (channel_count s))) 0))"
    if "e = CodecError"
    using cases(5) [OF that] by simp
  show ?thesis
    using cases(1) handler cases(2) cases(3) cases(4) codec
    by (simp add: generic_failure_def)
qed

theorem failed_call_keeps_session_open_witness:
  "valid_channel_count (channel_count mono_session)
   \<and> failure (decode_call (stub 1 0xFFFFFFFF []) still_clock mono_session
        \<lparr>ReadBuffer = [0, 0, 0, 1, 0, 0, 0, 0, 0xAA], GetWriteBufferSize = 4\<rparr> False)
       = Some CodecError
   \<and> DecodeInterleaved (stub 1 0xFFFFFFFF []) still_clock mono_session
        \<lparr>ReadBuffer = [0, 0, 0, 1, 0, 0, 0, 0, 0xAA], GetWriteBufferSize = 4\<rparr> =
      Inr \<lparr>this = \<lparr>decoder = 1, sample_rate = 48000, channel_count = 1\<rparr>,
           reply = generic_failure,
           codec_calls = [Probe [0xAA] 1 48000, Decode [0xAA] 1 2]\<rparr>"
  using failed_call_keeps_session_open
    [of mono_session "stub 1 0xFFFFFFFF []" still_clock
        "\<lparr>ReadBuffer = [0, 0, 0, 1, 0, 0, 0, 0, 0xAA], GetWriteBufferSize = 4\<rparr>" False
        CodecError]
  unfolding run_codec_error by (simp add: valid_channel_count_def mono_session_def)

section \<open>Negative estimates\<close>

text \<open>
  Claim C10. The product \<^verbatim>\<open>decoded_sample_count * channel_count\<close> of the capacity check
  is evaluated in unsigned arithmetic modulo \<open>2 ^ 32\<close> and doubled in 64 bits. For a
  session with one or two channels, an input that passes the framing checks and an output
  capacity below \<open>2 ^ 32\<close> bytes, a negative status code from the probe wraps to a byte
  size of at least \<open>2 ^ 32\<close>, so the call fails at the capacity check and the decode
  function is not called; and the decode function is only called when the probe
  returned a non-negative count whose output fits the capacity. The codec's status codes
  are the numbers from -7 to -1; the theorem takes every negative estimate from
  \<open>- 2 ^ 30\<close> up, and every negative estimate at all on a one-channel session.
\<close>

theorem negative_estimate_stops_at_capacity_check:
  assumes "valid_channel_count (channel_count s)"
    and "8 + unat (hdr_sz (ReadBuffer ctx)) \<le> length (ReadBuffer ctx)"
    and "GetWriteBufferSize ctx < 4294967296"
    and "channel_count s = 1
         \<or> - 1073741824 \<le> sint (opus_packet_get_nb_samples c (drop 8 (ReadBuffer ctx))
                                  (of_nat (length (ReadBuffer ctx) - 8)) (sample_rate s))"
  shows "unat (opus_packet_get_nb_samples c (drop 8 (ReadBuffer ctx))
                 (of_nat (length (ReadBuffer ctx) - 8)) (sample_rate s) * channel_count s)
           = (unat (opus_packet_get_nb_samples c (drop 8 (ReadBuffer ctx))
                 (of_nat (length (ReadBuffer ctx) - 8)) (sample_rate s))
                * unat (channel_count s)) mod 2 ^ 32
       \<and> (sint (opus_packet_get_nb_samples c (drop 8 (ReadBuffer ctx))
                 (of_nat (length (ReadBuffer ctx) - 8)) (sample_rate s)) < 0
          \<longrightarrow> GetWriteBufferSize ctx
                < unat (opus_packet_get_nb_samples c (drop 8 (ReadBuffer ctx))
                     (of_nat (length (ReadBuffer ctx) - 8)) (sample_rate s) * channel_count s) * 2
              \<and> failure (decode_call c clock s ctx timed) = Some CapacityError
              \<and> \<not> list_ex is_Decode (calls (decode_call c clock s ctx timed)))
       \<and> (list_ex is_Decode (calls (decode_call c clock s ctx timed))
          \<longrightarrow> 0 \<le> sint (opus_packet_get_nb_samples c (drop 8 (ReadBuffer ctx))
                         (of_nat (length (ReadBuffer ctx) - 8)) (sample_rate s))
              \<and> sint (opus_packet_get_nb_samples c (drop 8 (ReadBuffer ctx))
                         (of_nat (length (ReadBuffer ctx) - 8)) (sample_rate s))
                  * uint (channel_count s) * 2 \<le> int (GetWriteBufferSize ctx))"
proof -
  let ?p = "opus_packet_get_nb_samples c (drop 8 (ReadBuffer ctx))
              (of_nat (length (ReadBuffer ctx) - 8)) (sample_rate s)"
  let ?cap = "GetWriteBufferSize ctx"
  let ?out = "replicate (?cap div 2) (0 :: opus_int16)"
  have ch: "channel_count s = 1 \<or> channel_count s = 2"
    using assms(1) by (simp add: valid_channel_count_def)
  have modular: "unat (?p * channel_count s) = (unat ?p * unat (channel_count s)) mod 2 ^ 32"
    using unat_times_channels [of ?p "channel_count s"] by simp
  have first: "?cap < unat (?p * channel_count s) * 2
             \<and> failure (decode_call c clock s ctx timed) = Some CapacityError
             \<and> \<not> list_ex is_Decode (calls (decode_call c clock s ctx timed))"
    if neg: "sint ?p < 0"
  proof -
    have "channel_count s = 1 \<or> (channel_count s = 2 \<and> - 1073741824 \<le> sint ?p)"
      using ch assms(4) by blast
    from negative_estimate_wraps [OF neg this] assms(3)
    have over: "?cap < unat (?p * channel_count s) * 2"
      by simp
    then have "length ?out * 2 < unat (?p * channel_count s) * 2"
      by simp
    from decode_probed [OF assms(2) this] over
    show ?thesis by (simp add: failed_def)
  qed
  have second: "0 \<le> sint ?p \<and> sint ?p * uint (channel_count s) * 2 \<le> int ?cap"
    if called: "list_ex is_Decode (calls (decode_call c clock s ctx timed))"
  proof -
    have nonneg: "0 \<le> sint ?p"
      using first called by force
    have "unat (?p * channel_count s) * 2 \<le> length ?out * 2"
      using called by (rule decode_called_fits)
    then have "unat (?p * channel_count s) * 2 \<le> ?cap"
      by simp
    moreover have "int (unat (?p * channel_count s) * 2) = sint ?p * uint (channel_count s) * 2"
      using estimate_exact [OF nonneg ch] by simp
    ultimately show ?thesis using nonneg by linarith
  qed
  show ?thesis using modular first second by blast
qed

theorem negative_estimate_stops_at_capacity_check_witness:
  "valid_channel_count (channel_count stereo_session)
   \<and> 8 + unat (hdr_sz (ReadBuffer \<lparr>ReadBuffer = [0, 0, 0, 1, 0, 0, 0, 0, 0xAA],
                                     GetWriteBufferSize = 4\<rparr>))
       \<le> length (ReadBuffer \<lparr>ReadBuffer = [0, 0, 0, 1, 0, 0, 0, 0, 0xAA],
                               GetWriteBufferSize = 4\<rparr>)
   \<and> GetWriteBufferSize \<lparr>ReadBuffer = [0, 0, 0, 1, 0, 0, 0, 0, 0xAA],
                          GetWriteBufferSize = 4\<rparr> < 4294967296
   \<and> sint (opus_packet_get_nb_samples (stub 0xFFFFFFFC 1 [7]) [0xAA] 1 48000) = - 4
   \<and> failure (decode_call (stub 0xFFFFFFFC 1 [7]) still_clock stereo_session
        \<lparr>ReadBuffer = [0, 0, 0, 1, 0, 0, 0, 0, 0xAA], GetWriteBufferSize = 4\<rparr> False)
       = Some CapacityError
   \<and> \<not> list_ex is_Decode (calls (decode_call (stub 0xFFFFFFFC 1 [7]) still_clock stereo_session
        \<lparr>ReadBuffer = [0, 0, 0, 1, 0, 0, 0, 0, 0xAA], GetWriteBufferSize = 4\<rparr> False))"
  using negative_estimate_stops_at_capacity_check
    [of stereo_session "\<lparr>ReadBuffer = [0, 0, 0, 1, 0, 0, 0, 0, 0xAA], GetWriteBufferSize = 4\<rparr>"
        "stub 0xFFFFFFFC 1 [7]" still_clock False]
  by (simp add: valid_channel_count_def stereo_session_def hdr_sz_def stub_def)

text \<open>
  The lower bound on the estimate matters on a two-channel session only for numbers that
  are no status code: the least \<^verbatim>\<open>int\<close> times two is 0 modulo \<open>2 ^ 32\<close>, and with such an
  estimate the capacity check passes.
\<close>

lemma least_int_estimate_wraps_to_zero:
  "sint (opus_packet_get_nb_samples (stub 0x80000000 1 [7]) [0xAA] 1 48000) = - 2147483648
   \<and> channel_count stereo_session = 2
   \<and> failure (decode_call (stub 0x80000000 1 [7]) still_clock stereo_session
        \<lparr>ReadBuffer = [0, 0, 0, 1, 0, 0, 0, 0, 0xAA], GetWriteBufferSize = 4\<rparr> False) = None
   \<and> calls (decode_call (stub 0x80000000 1 [7]) still_clock stereo_session
        \<lparr>ReadBuffer = [0, 0, 0, 1, 0, 0, 0, 0, 0xAA], GetWriteBufferSize = 4\<rparr> False)
       = [Probe [0xAA] 1 48000, Decode [0xAA] 1 1]"
  unfolding run_wrapped by (simp add: stub_def stereo_session_def)

end
